theory Spec2Isabelle
  imports Complex_Main "HOL-Library.Word" "HOL-Library.Sublist"
begin

unbundle bit_operations_syntax

section \<open>Strings and bytes of the host language\<close>

text \<open>
  A JavaScript string is a sequence of UTF-16 code units; a \<^verbatim>\<open>Uint8Array\<close> is a
  sequence of bytes. String literals of the source are written through \<open>js\<close>, which
  maps an ASCII literal to its code units.
\<close>

type_synonym jstring = "16 word list"
type_synonym bytes = "8 word list"

definition js :: "string \<Rightarrow> jstring" where
  "js s = map of_char s"

text \<open>
  \<^verbatim>\<open>String.prototype.trim\<close> strips the code units of the ECMAScript productions
  WhiteSpace and LineTerminator from both ends.
\<close>

definition isWhiteSpace :: "16 word \<Rightarrow> bool" where
  "isWhiteSpace c =
     (c = 0x09 \<or> c = 0x0A \<or> c = 0x0B \<or> c = 0x0C \<or> c = 0x0D \<or> c = 0x20 \<or>
      c = 0xA0 \<or> c = 0x1680 \<or> (0x2000 \<le> c \<and> c \<le> 0x200A) \<or>
      c = 0x2028 \<or> c = 0x2029 \<or> c = 0x202F \<or> c = 0x205F \<or> c = 0x3000 \<or>
      c = 0xFEFF)"

definition trim :: "jstring \<Rightarrow> jstring" where
  "trim s = rev (dropWhile isWhiteSpace (rev (dropWhile isWhiteSpace s)))"

text \<open>
  \<^verbatim>\<open>String.prototype.split\<close> with a string separator: scan from the left, cut at
  every occurrence of the separator and resume right after it; the rest of the string
  is the last piece. \<open>cur\<close> holds the code units of the piece being scanned.
\<close>

function splitFrom :: "jstring \<Rightarrow> jstring \<Rightarrow> jstring \<Rightarrow> jstring list" where
  "splitFrom sep cur [] = [cur]"
| "splitFrom sep cur (c # cs) =
     (if sep \<noteq> [] \<and> prefix sep (c # cs)
      then cur # splitFrom sep [] (drop (length sep) (c # cs))
      else splitFrom sep (cur @ [c]) cs)"
  by pat_completeness auto
termination
  by (relation "measure (\<lambda>(sep, cur, s). length s)") (auto simp: neq_Nil_conv)

definition split :: "jstring \<Rightarrow> jstring \<Rightarrow> jstring list" where
  "split s sep = (if sep = [] then map (\<lambda>c. [c]) s else splitFrom sep [] s)"

text \<open>Truthiness of a string: every string but the empty one.\<close>

definition truthy :: "jstring \<Rightarrow> bool" where
  "truthy s = (s \<noteq> [])"

section \<open>The content formatter\<close>

text \<open>
  A row of the message format is an array \<^verbatim>\<open>[rowType, ...data]\<close>; the formatter
  builds rows of a number and a string.
\<close>

datatype cell = Num int | Str jstring

type_synonym row = "cell list"

definition formatContentAsMessageBinaryFormat :: "jstring \<Rightarrow> row list" where
  "formatContentAsMessageBinaryFormat content =
     (let paragraphs = filter (\<lambda>p. truthy (trim p)) (split content (js ''\<newline>\<newline>''))
      in if length paragraphs = 0 \<and> truthy (trim content)
         then [[Num 0, Str (trim content)]]
         else map (\<lambda>paragraph. [Num 0, Str (trim paragraph)]) paragraphs)"

section \<open>The platform's streaming text decoder\<close>

text \<open>
  \<^verbatim>\<open>new TextDecoder()\<close> is the UTF-8 decoder of the Encoding Standard in replacement
  mode. Its state is that of the UTF-8 decoder plus the flag saying whether the byte
  order mark was looked for. Every call of the source passes \<^verbatim>\<open>{ stream: true }\<close>, so
  the state is never reset and an incomplete trailing sequence is held back.
\<close>

record utf8_decoder =
  code_point :: nat
  bytes_seen :: nat
  bytes_needed :: nat
  lower_boundary :: "8 word"
  upper_boundary :: "8 word"

record TextDecoder =
  decoder :: utf8_decoder
  BOM_seen :: bool

definition utf8_fresh :: utf8_decoder where
  "utf8_fresh = \<lparr>code_point = 0, bytes_seen = 0, bytes_needed = 0,
                  lower_boundary = 0x80, upper_boundary = 0xBF\<rparr>"

definition new_TextDecoder :: TextDecoder where
  "new_TextDecoder = \<lparr>decoder = utf8_fresh, BOM_seen = False\<rparr>"

text \<open>The handler on a byte when no sequence is open (bytes needed is 0).\<close>

definition utf8_lead :: "utf8_decoder \<Rightarrow> 8 word \<Rightarrow> utf8_decoder \<times> nat list" where
  "utf8_lead d b =
     (if b \<le> 0x7F then (d, [unat b])
      else if 0xC2 \<le> b \<and> b \<le> 0xDF
        then (d\<lparr>bytes_needed := 1, code_point := unat (b AND 0x1F)\<rparr>, [])
      else if 0xE0 \<le> b \<and> b \<le> 0xEF
        then (d\<lparr>lower_boundary := (if b = 0xE0 then 0xA0 else lower_boundary d),
                upper_boundary := (if b = 0xED then 0x9F else upper_boundary d),
                bytes_needed := 2, code_point := unat (b AND 0xF)\<rparr>, [])
      else if 0xF0 \<le> b \<and> b \<le> 0xF4
        then (d\<lparr>lower_boundary := (if b = 0xF0 then 0x90 else lower_boundary d),
                upper_boundary := (if b = 0xF4 then 0x8F else upper_boundary d),
                bytes_needed := 3, code_point := unat (b AND 0x7)\<rparr>, [])
      else (d, [0xFFFD]))"

text \<open>
  The handler on any byte. A byte outside the expected range closes the open sequence
  with U+FFFD and is then read again as the first byte of a sequence.
\<close>

definition utf8_handler :: "utf8_decoder \<Rightarrow> 8 word \<Rightarrow> utf8_decoder \<times> nat list" where
  "utf8_handler d b =
     (if bytes_needed d = 0 then utf8_lead d b
      else if \<not> (lower_boundary d \<le> b \<and> b \<le> upper_boundary d)
        then (let (d', out) = utf8_lead utf8_fresh b in (d', 0xFFFD # out))
      else
        (let d1 = d\<lparr>lower_boundary := 0x80, upper_boundary := 0xBF,
                      code_point := code_point d * 64 + unat (b AND 0x3F),
                      bytes_seen := bytes_seen d + 1\<rparr>
         in if bytes_seen d1 \<noteq> bytes_needed d1 then (d1, [])
            else (utf8_fresh, [code_point d1])))"

fun utf8_run :: "utf8_decoder \<Rightarrow> bytes \<Rightarrow> utf8_decoder \<times> nat list" where
  "utf8_run d [] = (d, [])"
| "utf8_run d (b # bs) =
     (let (d1, out) = utf8_handler d b; (d2, rest) = utf8_run d1 bs in (d2, out @ rest))"

text \<open>A scalar value as UTF-16 code units.\<close>

definition code_units :: "nat \<Rightarrow> jstring" where
  "code_units cp =
     (if cp < 0x10000 then [of_nat cp]
      else [of_nat (0xD800 + (cp - 0x10000) div 0x400),
            of_nat (0xDC00 + (cp - 0x10000) mod 0x400)])"

text \<open>Serialising the scalar values: the first one is dropped when it is U+FEFF.\<close>

fun serialize :: "bool \<Rightarrow> nat list \<Rightarrow> bool \<times> jstring" where
  "serialize seen [] = (seen, [])"
| "serialize seen (item # items) =
     (if \<not> seen \<and> item = 0xFEFF then serialize True items
      else (let (seen', rest) = serialize True items in (seen', code_units item @ rest)))"

text \<open>\<^verbatim>\<open>decoder.decode(value, { stream: true })\<close>\<close>

definition decode :: "TextDecoder \<Rightarrow> bytes \<Rightarrow> TextDecoder \<times> jstring" where
  "decode td val =
     (let (d, scalars) = utf8_run (decoder td) val;
          (seen, output) = serialize (BOM_seen td) scalars
      in (\<lparr>decoder = d, BOM_seen = seen\<rparr>, output))"

section \<open>Reading the upstream body\<close>

text \<open>
  The three stream adapters read the body with the same loop: decode the chunk, append
  it to the buffer, split the buffer on newline, keep the last piece as the new buffer
  and hand every other piece to the body of the inner loop. \<open>readLoop\<close> is that loop
  over the chunks the reader delivers; \<open>h\<close> is the body of the inner loop, acting on
  the variables \<open>vars\<close> the adapter keeps besides the decoder and the buffer.
\<close>

definition pop :: "'a list \<Rightarrow> 'a option \<times> 'a list" where
  "pop xs = (if xs = [] then (None, []) else (Some (last xs), butlast xs))"

text \<open>\<^verbatim>\<open>a || b\<close> on a string that may be undefined.\<close>

definition orElse :: "jstring option \<Rightarrow> jstring \<Rightarrow> jstring" where
  "orElse a b = (case a of None \<Rightarrow> b | Some s \<Rightarrow> if truthy s then s else b)"

record 's reader =
  textDecoder :: TextDecoder
  buffer :: jstring
  vars :: 's

definition readChunk :: "('s \<Rightarrow> jstring \<Rightarrow> 's) \<Rightarrow> 's reader \<Rightarrow> bytes \<Rightarrow> 's reader" where
  "readChunk h r val =
     (let (td, decoded) = decode (textDecoder r) val;
          (popped, lines) = pop (split (buffer r @ decoded) (js ''\<newline>''))
      in \<lparr>textDecoder = td, buffer = orElse popped (js ''''), vars = foldl h (vars r) lines\<rparr>)"

fun readLoop :: "('s \<Rightarrow> jstring \<Rightarrow> 's) \<Rightarrow> 's reader \<Rightarrow> bytes list \<Rightarrow> 's reader" where
  "readLoop h r [] = r"
| "readLoop h r (val # rest) = readLoop h (readChunk h r val) rest"

definition newReader :: "'s \<Rightarrow> 's reader" where
  "newReader s = \<lparr>textDecoder = new_TextDecoder, buffer = js '''', vars = s\<rparr>"

text \<open>The lines the inner loop is run on, in order, over a whole body.\<close>

definition linesRead :: "bytes list \<Rightarrow> jstring list" where
  "linesRead chunks = vars (readLoop (\<lambda>ls line. ls @ [line]) (newReader []) chunks)"

section \<open>The shared data model\<close>

text \<open>
  The interfaces of \<^verbatim>\<open>types.ts\<close>. The message interfaces of the adapters
  (\<^verbatim>\<open>OllamaMessage\<close>, \<^verbatim>\<open>LlamaMessage\<close>, \<^verbatim>\<open>LMStudioMessage\<close>) have the fields of
  \<^verbatim>\<open>Message\<close> and are the same record here. An optional field is an \<open>option\<close>.
\<close>

datatype ProviderType = V0 | Ollama | OllamaCloud | LMStudio | Llama

datatype role = User | Assistant | System

record Message =
  role :: role
  content :: jstring

record ChatRequest =
  message :: jstring
  chatId :: "jstring option"
  attachments :: "jstring list option"
  streaming :: "bool option"
  messages :: "Message list option"

record Demo =
  code :: "jstring option"
  language :: "jstring option"

record ResponseMessage = Message +
  msg_id :: jstring
  experimental_content :: "row list option"

record ChatResponse =
  chat_id :: jstring
  demo :: "Demo option"
  chat_messages :: "ResponseMessage list option"

record ProviderConfig =
  baseUrl :: "jstring option"
  apiKey :: "jstring option"
  modelName :: "jstring option"
  temperature :: "real option"
  maxTokens :: "real option"

text \<open>Truthiness of an optional string, and \<^verbatim>\<open>a || b\<close> on an optional number.\<close>

definition isSet :: "jstring option \<Rightarrow> bool" where
  "isSet a = (case a of None \<Rightarrow> False | Some s \<Rightarrow> truthy s)"

definition orNumber :: "real option \<Rightarrow> real \<Rightarrow> real" where
  "orNumber a b = (case a of None \<Rightarrow> b | Some v \<Rightarrow> if v = 0 then b else v)"

text \<open>A non-negative integer in a template literal.\<close>

fun decimal :: "nat \<Rightarrow> jstring" where
  "decimal n = (if n < 10 then [of_nat (48 + n)]
                else decimal (n div 10) @ [of_nat (48 + n mod 10)])"

declare decimal.simps [simp del]

section \<open>The platform around an adapter\<close>

text \<open>
  What an adapter sends with \<^verbatim>\<open>fetch\<close>: the two body shapes are that of
  \<^verbatim>\<open>/api/chat\<close> (with \<^verbatim>\<open>options.temperature\<close> and \<^verbatim>\<open>options.num_predict\<close>) and that
  of \<^verbatim>\<open>/v1/chat/completions\<close>.
\<close>

datatype http_method = GET | POST

datatype request_body =
    NoBody
  | OllamaChatBody (body_model: jstring) (body_messages: "Message list") (body_stream: bool)
      (options_temperature: "real option") (options_num_predict: "real option")
  | CompletionsBody (body_model: jstring) (body_messages: "Message list")
      (body_temperature: real) (body_max_tokens: real) (body_stream: bool)

record http_request =
  url :: jstring
  http_method :: http_method
  headers :: "(jstring \<times> jstring) list"
  body :: request_body

text \<open>
  What \<^verbatim>\<open>fetch\<close> answers. A response gives its status, what \<^verbatim>\<open>response.text()\<close>
  and \<^verbatim>\<open>response.json()\<close> resolve to (\<open>None\<close> when they reject), and, when it has a
  body, the chunks \<^verbatim>\<open>reader.read()\<close> delivers and how the reading ends.
\<close>

datatype read_end = EndOfBody | ReadFails

record 'j response =
  ok :: bool
  status :: nat
  statusText :: jstring
  text_result :: "jstring option"
  json_result :: "'j option"
  body_reader :: "(bytes list \<times> read_end) option"

datatype 'j fetch_outcome = Rejected | Resolved "'j response"

text \<open>
  The values an adapter throws: an \<^verbatim>\<open>Error\<close> it builds itself, or what the platform
  raised (a rejected \<^verbatim>\<open>fetch\<close>, a rejected body read, a property read on
  \<^verbatim>\<open>undefined\<close>).
\<close>

datatype error =
    Error jstring
  | FetchRejected
  | BodyRejected
  | ReadRejected
  | TypeError

text \<open>The clock and the random source, read once per call.\<close>

record env =
  Date_now :: nat
  random_suffix :: jstring
  toISOString :: jstring

text \<open>
  An outbound stream: the frames enqueued on the controller, oldest first, whether the
  controller was closed or errored, and what was written with \<^verbatim>\<open>console.error\<close>.
  A frame stands for the object serialised into it: the chat metadata
  \<^verbatim>\<open>{object: "chat", id, createdAt}\<close>, \<^verbatim>\<open>{delta}\<close>, \<^verbatim>\<open>{type: "text", content}\<close>, or the
  literal \<^verbatim>\<open>[DONE]\<close>.
\<close>

datatype frame =
    ChatMetadata jstring jstring
  | DeltaFrame "row list"
  | TextFrame jstring
  | DoneFrame

datatype ending = Closed | Errored error

datatype log_entry = ParseFailure | StreamingError error | ModelsFailure error

record controller =
  enqueued :: "frame list"
  logged :: "log_entry list"

record ReadableStream =
  frames :: "frame list"
  ending :: ending
  console :: "log_entry list"

datatype 's chat_result = Threw error | Returned ChatResponse | Stream 's

section \<open>The Ollama adapter\<close>

datatype ModelTag = ModelTag (name: jstring)

datatype TagsResponse = TagsResponse (models: "ModelTag list option")

record OllamaResponse =
  response_model :: jstring
  response_message :: "Message option"
  is_done :: bool

definition createDelta :: "row list \<Rightarrow> row list \<Rightarrow> row list" where
  "createDelta oldContent newContent = newContent"

definition bearer :: "ProviderConfig \<Rightarrow> (jstring \<times> jstring) list" where
  "bearer config =
     (if isSet (apiKey config)
      then [(js ''Authorization'', js ''Bearer '' @ orElse (apiKey config) (js ''''))]
      else [])"

definition ollama_chatRequest ::
  "jstring \<Rightarrow> jstring \<Rightarrow> Message list \<Rightarrow> ProviderConfig \<Rightarrow> bool \<Rightarrow> http_request" where
  "ollama_chatRequest baseUrl' model messages' config stream =
     \<lparr>url = baseUrl' @ js ''/api/chat'', http_method = POST,
      headers = (js ''Content-Type'', js ''application/json'') # bearer config,
      body = OllamaChatBody model messages' stream (temperature config) (maxTokens config)\<rparr>"

definition ollama_apiError :: "'j response \<Rightarrow> error" where
  "ollama_apiError response =
     (case text_result response of
        None \<Rightarrow> BodyRejected
      | Some errorText \<Rightarrow>
          Error (js ''Ollama API error: '' @ decimal (status response) @ js '' ''
                 @ statusText response @ js '' - '' @ errorText))"

definition ollama_chatId :: "env \<Rightarrow> jstring" where
  "ollama_chatId e = js ''ollama-'' @ decimal (Date_now e) @ js ''-'' @ random_suffix e"

definition echo :: "Message list \<Rightarrow> ResponseMessage list" where
  "echo messages' =
     map (\<lambda>(idx, msg). \<lparr>role = role msg, content = content msg,
                          msg_id = js ''msg-'' @ decimal idx, experimental_content = None\<rparr>)
       (enumerate 0 messages')"

definition ollama_syncChat ::
  "env \<Rightarrow> (http_request \<Rightarrow> OllamaResponse fetch_outcome) \<Rightarrow> jstring \<Rightarrow> jstring \<Rightarrow>
   Message list \<Rightarrow> ProviderConfig \<Rightarrow> (error + ChatResponse) \<times> http_request list" where
  "ollama_syncChat e fetch baseUrl' model messages' config =
     (let request = ollama_chatRequest baseUrl' model messages' config False
      in (case fetch request of
            Rejected \<Rightarrow> Inl FetchRejected
          | Resolved response \<Rightarrow>
              if \<not> ok response then Inl (ollama_apiError response)
              else (case json_result response of
                      None \<Rightarrow> Inl BodyRejected
                    | Some data \<Rightarrow>
                        (case response_message data of
                           None \<Rightarrow> Inl TypeError
                         | Some m \<Rightarrow>
                             (let chatId' = ollama_chatId e;
                                  assistantContent = formatContentAsMessageBinaryFormat (content m)
                              in Inr \<lparr>chat_id = chatId', demo = None,
                                      chat_messages = Some (echo messages' @
                                        [\<lparr>role = Assistant, content = content m,
                                          msg_id = js ''msg-'' @ decimal (length messages'),
                                          experimental_content = Some assistantContent\<rparr>])\<rparr>))),
          [request]))"

record ollama_vars = controller +
  fullContent :: jstring
  currentFormattedContent :: "row list"

text \<open>The body of the inner loop of \<^verbatim>\<open>streamChat\<close>, on one line.\<close>

definition ollama_processLine ::
  "(jstring \<Rightarrow> OllamaResponse option) \<Rightarrow> ollama_vars \<Rightarrow> jstring \<Rightarrow> ollama_vars" where
  "ollama_processLine JSON_parse v line =
     (if truthy (trim line) then
        (case JSON_parse line of
           None \<Rightarrow> v\<lparr>logged := logged v @ [ParseFailure]\<rparr>
         | Some parsed \<Rightarrow>
             (case response_message parsed of
                None \<Rightarrow> v
              | Some m \<Rightarrow>
                  if truthy (content m) then
                    (let fullContent' = fullContent v @ content m;
                         newFormattedContent = formatContentAsMessageBinaryFormat fullContent';
                         delta = createDelta (currentFormattedContent v) newFormattedContent
                     in v\<lparr>fullContent := fullContent',
                          currentFormattedContent := newFormattedContent,
                          enqueued := enqueued v @ [DeltaFrame delta]\<rparr>)
                  else v))
      else v)"

definition ollama_streamChat ::
  "env \<Rightarrow> (http_request \<Rightarrow> 'j fetch_outcome) \<Rightarrow> (jstring \<Rightarrow> OllamaResponse option) \<Rightarrow>
   jstring \<Rightarrow> jstring \<Rightarrow> Message list \<Rightarrow> ProviderConfig \<Rightarrow> ReadableStream \<times> http_request list" where
  "ollama_streamChat e fetch JSON_parse baseUrl' model messages' config =
     (let chatId' = ollama_chatId e;
          chatMetadata = ChatMetadata chatId' (toISOString e);
          request = ollama_chatRequest baseUrl' model messages' config True;
          failed = (\<lambda>sent logs err.
            \<lparr>frames = sent, ending = Errored err, console = logs @ [StreamingError err]\<rparr>)
      in (case fetch request of
            Rejected \<Rightarrow> failed [chatMetadata] [] FetchRejected
          | Resolved response \<Rightarrow>
              if \<not> ok response then failed [chatMetadata] [] (ollama_apiError response)
              else (case body_reader response of
                      None \<Rightarrow> failed [chatMetadata] [] (Error (js ''No response body''))
                    | Some (chunks, fin) \<Rightarrow>
                        (let v = vars (readLoop (ollama_processLine JSON_parse)
                                   (newReader \<lparr>enqueued = [chatMetadata], logged = [],
                                                fullContent = js '''',
                                                currentFormattedContent = []\<rparr>) chunks)
                         in (case fin of
                               ReadFails \<Rightarrow> failed (enqueued v) (logged v) ReadRejected
                             | EndOfBody \<Rightarrow>
                                 \<lparr>frames = enqueued v @ [DoneFrame], ending = Closed,
                                  console = logged v\<rparr>))),
          [request]))"

definition ollama_createChat ::
  "env \<Rightarrow> (http_request \<Rightarrow> OllamaResponse fetch_outcome) \<Rightarrow> (jstring \<Rightarrow> OllamaResponse option) \<Rightarrow>
   ChatRequest \<Rightarrow> ProviderConfig \<Rightarrow> ReadableStream chat_result \<times> http_request list" where
  "ollama_createChat e fetch JSON_parse request config =
     (let baseUrl' = orElse (baseUrl config) (js ''http://localhost:11434'');
          model = orElse (modelName config) (js ''llama3.2'');
          messages' = [\<lparr>role = User, content = message request\<rparr>]
      in if streaming request = Some True
         then (let (s, sent) = ollama_streamChat e fetch JSON_parse baseUrl' model messages' config
               in (Stream s, sent))
         else (case ollama_syncChat e fetch baseUrl' model messages' config of
                 (Inl err, sent) \<Rightarrow> (Threw err, sent)
               | (Inr r, sent) \<Rightarrow> (Returned r, sent)))"

definition ollama_continueChat ::
  "env \<Rightarrow> (http_request \<Rightarrow> OllamaResponse fetch_outcome) \<Rightarrow> (jstring \<Rightarrow> OllamaResponse option) \<Rightarrow>
   ChatRequest \<Rightarrow> ProviderConfig \<Rightarrow> ReadableStream chat_result \<times> http_request list" where
  "ollama_continueChat e fetch JSON_parse request config =
     (let baseUrl' = orElse (baseUrl config) (js ''http://localhost:11434'');
          model = orElse (modelName config) (js ''llama3.2'');
          messages' =
            map (\<lambda>msg. \<lparr>role = role msg, content = content msg\<rparr>)
              (case messages request of None \<Rightarrow> [] | Some ms \<Rightarrow> ms)
            @ [\<lparr>role = User, content = message request\<rparr>]
      in if streaming request = Some True
         then (let (s, sent) = ollama_streamChat e fetch JSON_parse baseUrl' model messages' config
               in (Stream s, sent))
         else (case ollama_syncChat e fetch baseUrl' model messages' config of
                 (Inl err, sent) \<Rightarrow> (Threw err, sent)
               | (Inr r, sent) \<Rightarrow> (Returned r, sent)))"

text \<open>
  \<^verbatim>\<open>listModels\<close>: \<open>ollama_fetchModels\<close> is the \<^verbatim>\<open>try\<close> block, \<open>ollama_listModels\<close>
  adds the \<^verbatim>\<open>catch\<close>.
\<close>

definition ollama_tagsRequest :: "ProviderConfig \<Rightarrow> http_request" where
  "ollama_tagsRequest config =
     \<lparr>url = orElse (baseUrl config) (js ''http://localhost:11434'') @ js ''/api/tags'',
      http_method = GET, headers = bearer config, body = NoBody\<rparr>"

definition ollama_fetchModels ::
  "(http_request \<Rightarrow> TagsResponse fetch_outcome) \<Rightarrow> ProviderConfig \<Rightarrow> error + jstring list" where
  "ollama_fetchModels fetch config =
     (case fetch (ollama_tagsRequest config) of
        Rejected \<Rightarrow> Inl FetchRejected
      | Resolved response \<Rightarrow>
          if \<not> ok response then
            (case text_result response of
               None \<Rightarrow> Inl BodyRejected
             | Some errorText \<Rightarrow>
                 Inl (Error (js ''Failed to fetch models: '' @ decimal (status response)
                             @ js '' '' @ errorText)))
          else (case json_result response of
                  None \<Rightarrow> Inl BodyRejected
                | Some data \<Rightarrow>
                    (case models data of None \<Rightarrow> Inr [] | Some ms \<Rightarrow> Inr (map name ms))))"

record models_result =
  returned :: "error + jstring list"
  requested :: "http_request list"
  reported :: "log_entry list"

definition ollama_listModels ::
  "(http_request \<Rightarrow> TagsResponse fetch_outcome) \<Rightarrow> ProviderConfig \<Rightarrow> models_result" where
  "ollama_listModels fetch config =
     (case ollama_fetchModels fetch config of
        Inr ms \<Rightarrow> \<lparr>returned = Inr ms, requested = [ollama_tagsRequest config], reported = []\<rparr>
      | Inl err \<Rightarrow>
          \<lparr>returned = Inr [js ''llama3.2'', js ''llama3.1'', js ''mistral'', js ''codellama''],
           requested = [ollama_tagsRequest config], reported = [ModelsFailure err]\<rparr>)"

section \<open>The Ollama Cloud adapter\<close>

text \<open>
  The subclass overrides the three methods: each puts the cloud address in place of a
  missing \<^verbatim>\<open>baseUrl\<close> and calls the method of \<^verbatim>\<open>OllamaProvider\<close>; the two chat
  methods first look for the API key.
\<close>

definition cloudConfig :: "ProviderConfig \<Rightarrow> ProviderConfig" where
  "cloudConfig config = config\<lparr>baseUrl := Some (orElse (baseUrl config) (js ''https://ollama.com''))\<rparr>"

definition ollamaCloud_keyError :: error where
  "ollamaCloud_keyError =
     Error (js ''Ollama Cloud requires an API key. Please configure your API key in settings.'')"

definition ollamaCloud_createChat ::
  "env \<Rightarrow> (http_request \<Rightarrow> OllamaResponse fetch_outcome) \<Rightarrow> (jstring \<Rightarrow> OllamaResponse option) \<Rightarrow>
   ChatRequest \<Rightarrow> ProviderConfig \<Rightarrow> ReadableStream chat_result \<times> http_request list" where
  "ollamaCloud_createChat e fetch JSON_parse request config =
     (if \<not> isSet (apiKey (cloudConfig config)) then (Threw ollamaCloud_keyError, [])
      else ollama_createChat e fetch JSON_parse request (cloudConfig config))"

definition ollamaCloud_continueChat ::
  "env \<Rightarrow> (http_request \<Rightarrow> OllamaResponse fetch_outcome) \<Rightarrow> (jstring \<Rightarrow> OllamaResponse option) \<Rightarrow>
   ChatRequest \<Rightarrow> ProviderConfig \<Rightarrow> ReadableStream chat_result \<times> http_request list" where
  "ollamaCloud_continueChat e fetch JSON_parse request config =
     (if \<not> isSet (apiKey (cloudConfig config)) then (Threw ollamaCloud_keyError, [])
      else ollama_continueChat e fetch JSON_parse request (cloudConfig config))"

definition ollamaCloud_listModels ::
  "(http_request \<Rightarrow> TagsResponse fetch_outcome) \<Rightarrow> ProviderConfig \<Rightarrow> models_result" where
  "ollamaCloud_listModels fetch config = ollama_listModels fetch (cloudConfig config)"

section \<open>The Llama adapter\<close>

record Choice =
  choice_message :: Message
  finish_reason :: jstring

record LlamaResponse =
  completion_id :: jstring
  choices :: "Choice list"

text \<open>
  A parsed line of a streamed completion, as far as the adapters read it:
  \<^verbatim>\<open>parsed.choices?.[0]?.delta?.content\<close>.
\<close>

datatype ChunkDelta = ChunkDelta (delta_content: "jstring option")

datatype ChunkChoice = ChunkChoice (choice_delta: "ChunkDelta option")

datatype CompletionChunk = CompletionChunk (chunk_choices: "ChunkChoice list option")

definition chunkContent :: "CompletionChunk \<Rightarrow> jstring option" where
  "chunkContent parsed =
     (case chunk_choices parsed of
        None \<Rightarrow> None
      | Some [] \<Rightarrow> None
      | Some (c # _) \<Rightarrow>
          (case choice_delta c of None \<Rightarrow> None | Some d \<Rightarrow> delta_content d))"

definition llama_keyError :: error where
  "llama_keyError =
     Error (js ''Llama API key is required. Please configure your API key in settings.'')"

definition llama_chatRequest ::
  "jstring \<Rightarrow> jstring \<Rightarrow> jstring \<Rightarrow> Message list \<Rightarrow> ProviderConfig \<Rightarrow> bool \<Rightarrow> http_request" where
  "llama_chatRequest baseUrl' model apiKey' messages' config stream =
     \<lparr>url = baseUrl', http_method = POST,
      headers = [(js ''Content-Type'', js ''application/json''),
                 (js ''Authorization'', js ''Bearer '' @ apiKey')],
      body = CompletionsBody model messages' (orNumber (temperature config) 0.7)
               (orNumber (maxTokens config) 2000) stream\<rparr>"

definition llama_apiError :: "'j response \<Rightarrow> error" where
  "llama_apiError response =
     (case text_result response of
        None \<Rightarrow> BodyRejected
      | Some errorText \<Rightarrow>
          Error (js ''Llama API error: '' @ decimal (status response) @ js '' ''
                 @ statusText response @ js '' - '' @ errorText))"

definition llama_chatId :: "env \<Rightarrow> jstring" where
  "llama_chatId e = js ''llama-'' @ decimal (Date_now e) @ js ''-'' @ random_suffix e"

definition llama_syncChat ::
  "env \<Rightarrow> (http_request \<Rightarrow> LlamaResponse fetch_outcome) \<Rightarrow> jstring \<Rightarrow> jstring \<Rightarrow> jstring \<Rightarrow>
   Message list \<Rightarrow> ProviderConfig \<Rightarrow> (error + ChatResponse) \<times> http_request list" where
  "llama_syncChat e fetch baseUrl' model apiKey' messages' config =
     (let request = llama_chatRequest baseUrl' model apiKey' messages' config False
      in (case fetch request of
            Rejected \<Rightarrow> Inl FetchRejected
          | Resolved response \<Rightarrow>
              if \<not> ok response then Inl (llama_apiError response)
              else (case json_result response of
                      None \<Rightarrow> Inl BodyRejected
                    | Some data \<Rightarrow>
                        (case choices data of
                           [] \<Rightarrow> Inl TypeError
                         | c # _ \<Rightarrow>
                             Inr \<lparr>chat_id = llama_chatId e, demo = None,
                                  chat_messages = Some (echo messages' @
                                    [\<lparr>role = Assistant, content = content (choice_message c),
                                      msg_id = js ''msg-'' @ decimal (length messages'),
                                      experimental_content = None\<rparr>])\<rparr>)),
          [request]))"

text \<open>The body of the inner loop of \<^verbatim>\<open>streamChat\<close>, on one line.\<close>

definition llama_processLine ::
  "(jstring \<Rightarrow> CompletionChunk option) \<Rightarrow> controller \<Rightarrow> jstring \<Rightarrow> controller" where
  "llama_processLine JSON_parse v line =
     (if prefix (js ''data: '') (trim line) then
        (let data = drop 6 (trim line)
         in if data = js ''[DONE]'' then v
            else (case JSON_parse data of
                    None \<Rightarrow> v\<lparr>logged := logged v @ [ParseFailure]\<rparr>
                  | Some parsed \<Rightarrow>
                      if isSet (chunkContent parsed)
                      then v\<lparr>enqueued := enqueued v
                                 @ [TextFrame (orElse (chunkContent parsed) (js ''''))]\<rparr>
                      else v))
      else v)"

definition llama_streamChat ::
  "(http_request \<Rightarrow> 'j fetch_outcome) \<Rightarrow> (jstring \<Rightarrow> CompletionChunk option) \<Rightarrow>
   jstring \<Rightarrow> jstring \<Rightarrow> jstring \<Rightarrow> Message list \<Rightarrow> ProviderConfig \<Rightarrow>
   ReadableStream \<times> http_request list" where
  "llama_streamChat fetch JSON_parse baseUrl' model apiKey' messages' config =
     (let request = llama_chatRequest baseUrl' model apiKey' messages' config True;
          failed = (\<lambda>sent logs err. \<lparr>frames = sent, ending = Errored err, console = logs\<rparr>)
      in (case fetch request of
            Rejected \<Rightarrow> failed [] [] FetchRejected
          | Resolved response \<Rightarrow>
              if \<not> ok response then failed [] [] (llama_apiError response)
              else (case body_reader response of
                      None \<Rightarrow> failed [] [] (Error (js ''No response body''))
                    | Some (chunks, fin) \<Rightarrow>
                        (let v = vars (readLoop (llama_processLine JSON_parse)
                                   (newReader \<lparr>enqueued = [], logged = []\<rparr>) chunks)
                         in (case fin of
                               ReadFails \<Rightarrow> failed (enqueued v) (logged v) ReadRejected
                             | EndOfBody \<Rightarrow>
                                 \<lparr>frames = enqueued v, ending = Closed, console = logged v\<rparr>))),
          [request]))"


definition llama_continueChat ::
  "env \<Rightarrow> (http_request \<Rightarrow> LlamaResponse fetch_outcome) \<Rightarrow> (jstring \<Rightarrow> CompletionChunk option) \<Rightarrow>
   ChatRequest \<Rightarrow> ProviderConfig \<Rightarrow> ReadableStream chat_result \<times> http_request list" where
  "llama_continueChat e fetch JSON_parse request config =
     (let baseUrl' = orElse (baseUrl config) (js ''https://api.llama-api.com/v1/chat/completions'');
          model = orElse (modelName config) (js ''llama3.2-1b'');
          apiKey' = apiKey config
      in if \<not> isSet apiKey' then (Threw llama_keyError, [])
         else
           (let messages' =
                  map (\<lambda>msg. \<lparr>role = role msg, content = content msg\<rparr>)
                    (case messages request of None \<Rightarrow> [] | Some ms \<Rightarrow> ms)
                  @ [\<lparr>role = User, content = message request\<rparr>]
            in if streaming request = Some True
               then (let (s, sent) = llama_streamChat fetch JSON_parse baseUrl' model
                                       (orElse apiKey' (js '''')) messages' config
                     in (Stream s, sent))
               else (case llama_syncChat e fetch baseUrl' model (orElse apiKey' (js ''''))
                             messages' config of
                       (Inl err, sent) \<Rightarrow> (Threw err, sent)
                     | (Inr r, sent) \<Rightarrow> (Returned r, sent))))"

definition llama_listModels :: "ProviderConfig \<Rightarrow> models_result" where
  "llama_listModels config =
     \<lparr>returned = Inr [js ''llama3.2-1b'', js ''llama3.2-3b'', js ''llama3.1-8b'',
                      js ''llama3.1-70b'', js ''llama3.1-405b''],
      requested = [], reported = []\<rparr>"

section \<open>The LM Studio adapter\<close>

definition lmstudio_chatRequest ::
  "jstring \<Rightarrow> jstring \<Rightarrow> Message list \<Rightarrow> ProviderConfig \<Rightarrow> bool \<Rightarrow> http_request" where
  "lmstudio_chatRequest baseUrl' model messages' config stream =
     \<lparr>url = baseUrl' @ js ''/v1/chat/completions'', http_method = POST,
      headers = [(js ''Content-Type'', js ''application/json'')],
      body = CompletionsBody model messages' (orNumber (temperature config) 0.7)
               (orNumber (maxTokens config) 2000) stream\<rparr>"

definition lmstudio_apiError :: "'j response \<Rightarrow> error" where
  "lmstudio_apiError response = Error (js ''LM Studio API error: '' @ statusText response)"

definition lmstudio_chatId :: "env \<Rightarrow> jstring" where
  "lmstudio_chatId e = js ''lmstudio-'' @ decimal (Date_now e) @ js ''-'' @ random_suffix e"

definition lmstudio_syncChat ::
  "env \<Rightarrow> (http_request \<Rightarrow> LlamaResponse fetch_outcome) \<Rightarrow> jstring \<Rightarrow> jstring \<Rightarrow>
   Message list \<Rightarrow> ProviderConfig \<Rightarrow> (error + ChatResponse) \<times> http_request list" where
  "lmstudio_syncChat e fetch baseUrl' model messages' config =
     (let request = lmstudio_chatRequest baseUrl' model messages' config False
      in (case fetch request of
            Rejected \<Rightarrow> Inl FetchRejected
          | Resolved response \<Rightarrow>
              if \<not> ok response then Inl (lmstudio_apiError response)
              else (case json_result response of
                      None \<Rightarrow> Inl BodyRejected
                    | Some data \<Rightarrow>
                        (case choices data of
                           [] \<Rightarrow> Inl TypeError
                         | c # _ \<Rightarrow>
                             Inr \<lparr>chat_id = lmstudio_chatId e, demo = None,
                                  chat_messages = Some (echo messages' @
                                    [\<lparr>role = Assistant, content = content (choice_message c),
                                      msg_id = js ''msg-'' @ decimal (length messages'),
                                      experimental_content = None\<rparr>])\<rparr>)),
          [request]))"

definition lmstudio_processLine ::
  "(jstring \<Rightarrow> CompletionChunk option) \<Rightarrow> controller \<Rightarrow> jstring \<Rightarrow> controller" where
  "lmstudio_processLine JSON_parse v line =
     (if prefix (js ''data: '') (trim line) then
        (let data = drop 6 (trim line)
         in if data = js ''[DONE]'' then v
            else (case JSON_parse data of
                    None \<Rightarrow> v\<lparr>logged := logged v @ [ParseFailure]\<rparr>
                  | Some parsed \<Rightarrow>
                      if isSet (chunkContent parsed)
                      then v\<lparr>enqueued := enqueued v
                                 @ [TextFrame (orElse (chunkContent parsed) (js ''''))]\<rparr>
                      else v))
      else v)"

definition lmstudio_streamChat ::
  "(http_request \<Rightarrow> 'j fetch_outcome) \<Rightarrow> (jstring \<Rightarrow> CompletionChunk option) \<Rightarrow>
   jstring \<Rightarrow> jstring \<Rightarrow> Message list \<Rightarrow> ProviderConfig \<Rightarrow>
   ReadableStream \<times> http_request list" where
  "lmstudio_streamChat fetch JSON_parse baseUrl' model messages' config =
     (let request = lmstudio_chatRequest baseUrl' model messages' config True;
          failed = (\<lambda>sent logs err. \<lparr>frames = sent, ending = Errored err, console = logs\<rparr>)
      in (case fetch request of
            Rejected \<Rightarrow> failed [] [] FetchRejected
          | Resolved response \<Rightarrow>
              if \<not> ok response then failed [] [] (lmstudio_apiError response)
              else (case body_reader response of
                      None \<Rightarrow> failed [] [] (Error (js ''No response body''))
                    | Some (chunks, fin) \<Rightarrow>
                        (let v = vars (readLoop (lmstudio_processLine JSON_parse)
                                   (newReader \<lparr>enqueued = [], logged = []\<rparr>) chunks)
                         in (case fin of
                               ReadFails \<Rightarrow> failed (enqueued v) (logged v) ReadRejected
                             | EndOfBody \<Rightarrow>
                                 \<lparr>frames = enqueued v, ending = Closed, console = logged v\<rparr>))),
          [request]))"


definition lmstudio_continueChat ::
  "env \<Rightarrow> (http_request \<Rightarrow> LlamaResponse fetch_outcome) \<Rightarrow> (jstring \<Rightarrow> CompletionChunk option) \<Rightarrow>
   ChatRequest \<Rightarrow> ProviderConfig \<Rightarrow> ReadableStream chat_result \<times> http_request list" where
  "lmstudio_continueChat e fetch JSON_parse request config =
     (let baseUrl' = orElse (baseUrl config) (js ''http://localhost:1234'');
          model = orElse (modelName config) (js ''local-model'');
          messages' =
            map (\<lambda>msg. \<lparr>role = role msg, content = content msg\<rparr>)
              (case messages request of None \<Rightarrow> [] | Some ms \<Rightarrow> ms)
            @ [\<lparr>role = User, content = message request\<rparr>]
      in if streaming request = Some True
         then (let (s, sent) = lmstudio_streamChat fetch JSON_parse baseUrl' model messages' config
               in (Stream s, sent))
         else (case lmstudio_syncChat e fetch baseUrl' model messages' config of
                 (Inl err, sent) \<Rightarrow> (Threw err, sent)
               | (Inr r, sent) \<Rightarrow> (Returned r, sent)))"

datatype ModelId = ModelId (model_id: jstring)

datatype ModelsResponse = ModelsResponse (data: "ModelId list option")

definition lmstudio_modelsRequest :: "ProviderConfig \<Rightarrow> http_request" where
  "lmstudio_modelsRequest config =
     \<lparr>url = orElse (baseUrl config) (js ''http://localhost:1234'') @ js ''/v1/models'',
      http_method = GET, headers = [], body = NoBody\<rparr>"

definition lmstudio_fetchModels ::
  "(http_request \<Rightarrow> ModelsResponse fetch_outcome) \<Rightarrow> ProviderConfig \<Rightarrow> error + jstring list" where
  "lmstudio_fetchModels fetch config =
     (case fetch (lmstudio_modelsRequest config) of
        Rejected \<Rightarrow> Inl FetchRejected
      | Resolved response \<Rightarrow>
          (case json_result response of
             None \<Rightarrow> Inl BodyRejected
           | Some d \<Rightarrow>
               (case data d of None \<Rightarrow> Inr [] | Some ms \<Rightarrow> Inr (map model_id ms))))"

definition lmstudio_listModels ::
  "(http_request \<Rightarrow> ModelsResponse fetch_outcome) \<Rightarrow> ProviderConfig \<Rightarrow> models_result" where
  "lmstudio_listModels fetch config =
     (case lmstudio_fetchModels fetch config of
        Inr ms \<Rightarrow> \<lparr>returned = Inr ms, requested = [lmstudio_modelsRequest config], reported = []\<rparr>
      | Inl err \<Rightarrow>
          \<lparr>returned = Inr [js ''local-model''],
           requested = [lmstudio_modelsRequest config], reported = [ModelsFailure err]\<rparr>)"

section \<open>The v0 adapter\<close>

text \<open>
  The adapter hands the request to the v0 SDK. \<open>sdk\<close> stands for
  \<^verbatim>\<open>createClient(clientConfig)\<close> followed by \<^verbatim>\<open>client.chats.create\<close> or
  \<^verbatim>\<open>client.chats.sendMessage\<close>: it answers a stream of its own, a chat detail, or
  rejects. A chat detail has the fields of a \<^verbatim>\<open>ChatResponse\<close>.
\<close>

record ClientConfig =
  client_baseUrl :: "jstring option"
  client_apiKey :: "jstring option"

datatype responseMode = experimental_stream | sync

datatype sdk_call =
    ChatsCreate ClientConfig jstring responseMode "jstring list option"
  | ChatsSendMessage ClientConfig jstring jstring "responseMode option" "jstring list option"

datatype 's sdk_outcome = SdkRejected error | SdkStream 's | SdkChatDetail ChatResponse

definition clientConfig :: "ProviderConfig \<Rightarrow> ClientConfig" where
  "clientConfig config =
     \<lparr>client_baseUrl = (if isSet (baseUrl config) then baseUrl config else None),
      client_apiKey = (if isSet (apiKey config) then apiKey config else None)\<rparr>"

definition sentAttachments :: "ChatRequest \<Rightarrow> jstring list option" where
  "sentAttachments request =
     (case attachments request of
        None \<Rightarrow> None
      | Some as \<Rightarrow> if length as > 0 then Some as else None)"

definition mapV0Response :: "ChatResponse \<Rightarrow> ChatResponse" where
  "mapV0Response chatDetail =
     \<lparr>chat_id = chat_id chatDetail, demo = demo chatDetail,
      chat_messages =
        map_option (map (\<lambda>msg. msg\<lparr>experimental_content := experimental_content msg\<rparr>))
          (chat_messages chatDetail)\<rparr>"

definition v0_result :: "'s sdk_outcome \<Rightarrow> 's chat_result" where
  "v0_result result =
     (case result of
        SdkRejected err \<Rightarrow> Threw err
      | SdkStream s \<Rightarrow> Stream s
      | SdkChatDetail chatDetail \<Rightarrow> Returned (mapV0Response chatDetail))"


definition v0_continueChat ::
  "(sdk_call \<Rightarrow> 's sdk_outcome) \<Rightarrow> ChatRequest \<Rightarrow> ProviderConfig \<Rightarrow> 's chat_result \<times> sdk_call list" where
  "v0_continueChat sdk request config =
     (if \<not> isSet (chatId request)
      then (Threw (Error (js ''Chat ID is required for continuing chat'')), [])
      else
        (let call = ChatsSendMessage (clientConfig config) (orElse (chatId request) (js ''''))
                      (message request)
                      (if streaming request = Some True then Some experimental_stream else None)
                      (sentAttachments request)
         in (v0_result (sdk call), [call])))"

definition v0_listModels :: "ProviderConfig \<Rightarrow> models_result" where
  "v0_listModels config = \<lparr>returned = Inr [js ''v0-default''], requested = [], reported = []\<rparr>"

section \<open>The provider catalog\<close>

record ProviderInfo =
  provider_id :: ProviderType
  provider_name :: jstring
  description :: jstring
  requiresApiKey :: bool
  defaultBaseUrl :: "jstring option"

definition getAllProviders :: "ProviderInfo list" where
  "getAllProviders =
     [\<lparr>provider_id = V0, provider_name = js ''v0.dev'',
       description = js ''Vercel v0 - AI-powered React component generator'',
       requiresApiKey = True, defaultBaseUrl = None\<rparr>,
      \<lparr>provider_id = Ollama, provider_name = js ''Ollama (Local)'',
       description = js ''Run Llama models locally on your machine'',
       requiresApiKey = False, defaultBaseUrl = Some (js ''http://localhost:11434'')\<rparr>,
      \<lparr>provider_id = OllamaCloud, provider_name = js ''Ollama Cloud'',
       description = js ''Ollama hosted in the cloud'',
       requiresApiKey = True, defaultBaseUrl = Some (js ''https://ollama.com'')\<rparr>,
      \<lparr>provider_id = LMStudio, provider_name = js ''LM Studio'',
       description = js ''Local LLM inference with LM Studio'',
       requiresApiKey = False, defaultBaseUrl = Some (js ''http://localhost:1234'')\<rparr>,
      \<lparr>provider_id = Llama, provider_name = js ''Meta Llama API'',
       description = js ''Official Meta Llama API'',
       requiresApiKey = True, defaultBaseUrl = Some (js ''https://api.llama-api.com'')\<rparr>]"

definition mandatesKey :: "ProviderType \<Rightarrow> bool" where
  "mandatesKey p = list_ex (\<lambda>info. provider_id info = p \<and> requiresApiKey info) getAllProviders"

section \<open>The lifecycle of an outbound stream\<close>













section \<open>Sample upstreams\<close>



definition jsonBody :: "'j \<Rightarrow> http_request \<Rightarrow> 'j fetch_outcome" where
  "jsonBody value request =
     Resolved \<lparr>ok = True, status = 200, statusText = js ''OK'', text_result = None,
               json_result = Some value, body_reader = None\<rparr>"

definition errorStatus :: "'j \<Rightarrow> http_request \<Rightarrow> 'j fetch_outcome" where
  "errorStatus value request =
     Resolved \<lparr>ok = False, status = 500, statusText = js ''Internal Server Error'',
               text_result = Some (js ''{\"error\":\"boom\"}''), json_result = Some value,
               body_reader = None\<rparr>"

definition noConfig :: ProviderConfig where
  "noConfig = \<lparr>baseUrl = None, apiKey = None, modelName = None, temperature = None,
               maxTokens = None\<rparr>"

definition sampleEnv :: env where
  "sampleEnv = \<lparr>Date_now = 1700000000000, random_suffix = js ''k3x9q'',
                toISOString = js ''2023-11-14T22:13:20.000Z''\<rparr>"

definition ask :: "jstring \<Rightarrow> ChatRequest" where
  "ask m = \<lparr>message = m, chatId = None, attachments = None, streaming = None, messages = None\<rparr>"


definition keyedConfig :: ProviderConfig where
  "keyedConfig = \<lparr>baseUrl = Some (js ''http://host''), apiKey = Some (js ''key''), modelName = None,
                  temperature = None, maxTokens = None\<rparr>"



text \<open>
  What \<^verbatim>\<open>JSON.parse\<close> answers on the lines of the examples; every other line stands
  for one it throws on.
\<close>

definition sampleChunks :: "jstring \<Rightarrow> CompletionChunk option" where
  "sampleChunks =
     map_of [(js ''{\"choices\":[{\"delta\":{\"content\":\"Hi\"}}]}'',
              CompletionChunk (Some [ChunkChoice (Some (ChunkDelta (Some (js ''Hi''))))]))]"

definition sampleLines :: "jstring \<Rightarrow> OllamaResponse option" where
  "sampleLines =
     map_of [(js ''{\"model\":\"m\",\"message\":{\"content\":\"Hello\"},\"done\":false}'',
              \<lparr>response_model = js ''m'',
               response_message = Some \<lparr>role = Assistant, content = js ''Hello''\<rparr>,
               is_done = False\<rparr>),
             (js ''{\"model\":\"m\",\"message\":{\"content\":\" World\"},\"done\":true}'',
              \<lparr>response_model = js ''m'',
               response_message = Some \<lparr>role = Assistant, content = js '' World''\<rparr>,
               is_done = True\<rparr>)]"



definition hiCompletion :: LlamaResponse where
  "hiCompletion =
     \<lparr>completion_id = js ''cmpl-1'',
      choices = [\<lparr>choice_message = \<lparr>role = Assistant, content = js ''Hi''\<rparr>,
                  finish_reason = js ''stop''\<rparr>]\<rparr>"

definition helloAnswer :: OllamaResponse where
  "helloAnswer =
     \<lparr>response_model = js ''m'',
      response_message = Some \<lparr>role = Assistant, content = js ''Hello World''\<rparr>,
      is_done = True\<rparr>"



definition sampleDetail :: ChatResponse where
  "sampleDetail = \<lparr>chat_id = js ''chat-1'', demo = None, chat_messages = None\<rparr>"



text \<open>The turns a call sends: the prior turns, if any, and the new user turn.\<close>

definition turnsOf :: "ChatRequest \<Rightarrow> Message list" where
  "turnsOf request =
     (case messages request of None \<Rightarrow> [] | Some ms \<Rightarrow> ms)
     @ [\<lparr>role = User, content = message request\<rparr>]"

text \<open>The message list in the body of a request, when it has one.\<close>

definition requestMessages :: "http_request \<Rightarrow> Message list option" where
  "requestMessages request =
     (case body request of
        NoBody \<Rightarrow> None
      | OllamaChatBody _ ms _ _ _ \<Rightarrow> Some ms
      | CompletionsBody _ ms _ _ _ \<Rightarrow> Some ms)"

definition scenarioE :: ChatRequest where
  "scenarioE =
     \<lparr>message = js ''C'', chatId = Some (js ''chat-1''), attachments = None, streaming = None,
      messages = Some [\<lparr>role = User, content = js ''A''\<rparr>,
                       \<lparr>role = Assistant, content = js ''B''\<rparr>]\<rparr>"

section \<open>Properties of splitting and trimming\<close>

lemma dropWhile_both_Nil:
  "rev (dropWhile P (rev (dropWhile P s))) = [] \<longleftrightarrow> (\<forall>x \<in> set s. P x)"
proof
  assume "rev (dropWhile P (rev (dropWhile P s))) = []"
  then have all: "\<forall>x \<in> set (dropWhile P s). P x"
    by (simp add: dropWhile_eq_Nil_conv)
  have "dropWhile P s = []"
  proof (rule ccontr)
    assume ne: "dropWhile P s \<noteq> []"
    then have "\<not> P (hd (dropWhile P s))"
      by (rule hd_dropWhile)
    moreover from ne have "hd (dropWhile P s) \<in> set (dropWhile P s)"
      by (rule hd_in_set)
    ultimately show False
      using all by blast
  qed
  then show "\<forall>x \<in> set s. P x"
    by (simp only: dropWhile_eq_Nil_conv)
next
  assume "\<forall>x \<in> set s. P x"
  then show "rev (dropWhile P (rev (dropWhile P s))) = []"
    by (auto dest: set_dropWhileD)
qed

lemma trim_truthy_iff: "truthy (trim s) \<longleftrightarrow> (\<exists>c \<in> set s. \<not> isWhiteSpace c)"
  unfolding truthy_def trim_def dropWhile_both_Nil by blast

lemma splitFrom_covers:
  assumes "x \<in> set cur \<union> set s" and "x \<notin> set sep"
  shows "\<exists>p \<in> set (splitFrom sep cur s). x \<in> set p"
  using assms
proof (induction sep cur s rule: splitFrom.induct)
  case (1 sep cur)
  then show ?case by simp
next
  case (2 sep cur c cs)
  show ?case
  proof (cases "sep \<noteq> [] \<and> prefix sep (c # cs)")
    case True
    then obtain rest where rest: "c # cs = sep @ rest"
      by (auto simp: prefix_def)
    then have d: "drop (length sep) (c # cs) = rest"
      by simp
    show ?thesis
    proof (cases "x \<in> set cur")
      case True
      with \<open>sep \<noteq> [] \<and> prefix sep (c # cs)\<close> show ?thesis by simp
    next
      case False
      with "2.prems" have "x \<in> set (c # cs)" by auto
      with rest "2.prems"(2) have "x \<in> set rest" by auto
      with d have "x \<in> set [] \<union> set (drop (length sep) (c # cs))" by simp
      from "2.IH"(1)[OF True this "2.prems"(2)] True show ?thesis by auto
    qed
  next
    case False
    from "2.prems" have "x \<in> set (cur @ [c]) \<union> set cs" by auto
    from "2.IH"(2)[OF False this "2.prems"(2)] False show ?thesis by auto
  qed
qed

lemma newline_isWhiteSpace: "c \<in> set (js ''\<newline>\<newline>'') \<Longrightarrow> isWhiteSpace c"
  by (auto simp: js_def isWhiteSpace_def)

lemma paragraphs_nonempty:
  assumes "truthy (trim str)"
  shows "filter (\<lambda>p. truthy (trim p)) (split str (js ''\<newline>\<newline>'')) \<noteq> []"
proof -
  from assms obtain c where c: "c \<in> set str" "\<not> isWhiteSpace c"
    by (auto simp: trim_truthy_iff)
  then have "c \<notin> set (js ''\<newline>\<newline>'')"
    using newline_isWhiteSpace by blast
  moreover have "js ''\<newline>\<newline>'' \<noteq> []"
    by (simp add: js_def)
  ultimately obtain p where "p \<in> set (split str (js ''\<newline>\<newline>''))" "c \<in> set p"
    using splitFrom_covers[of c "[]" str "js ''\<newline>\<newline>''"] c(1)
    by (auto simp: split_def)
  with c(2) have "p \<in> set (filter (\<lambda>p. truthy (trim p)) (split str (js ''\<newline>\<newline>'')))"
    by (auto simp: trim_truthy_iff)
  then show ?thesis
    by (metis empty_iff list.set(1))
qed

text \<open>
  C3. For every text, the formatter returns the pieces of the text between
  occurrences of two consecutive newlines that are non-empty after trimming, in their
  order, each as the row \<open>[0, trimmed piece]\<close>; and a text that is non-empty after
  trimming gives a non-empty document.
\<close>

theorem formatContent_paragraphs:
  "formatContentAsMessageBinaryFormat str =
     map (\<lambda>p. [Num 0, Str (trim p)])
       (filter (\<lambda>p. trim p \<noteq> []) (split str (js ''\<newline>\<newline>'')))
   \<and> (trim str \<noteq> [] \<longrightarrow> formatContentAsMessageBinaryFormat str \<noteq> [])"
proof (cases "truthy (trim str)")
  case True
  from paragraphs_nonempty[OF True] show ?thesis
    by (simp add: formatContentAsMessageBinaryFormat_def Let_def truthy_def)
next
  case False
  then show ?thesis
    by (simp add: formatContentAsMessageBinaryFormat_def Let_def truthy_def)
qed

theorem formatContent_paragraphs_witness:
  "trim (js ''Hello\<newline>\<newline>World'') \<noteq> []
   \<and> formatContentAsMessageBinaryFormat (js ''Hello\<newline>\<newline>World'')
       = [[Num 0, Str (js ''Hello'')], [Num 0, Str (js ''World'')]]"
proof -
  have s: "split (js ''Hello\<newline>\<newline>World'') (js ''\<newline>\<newline>'') = [js ''Hello'', js ''World'']"
    by (simp add: split_def js_def)
  have t: "trim (js ''Hello\<newline>\<newline>World'') \<noteq> []"
    by (simp add: trim_def js_def isWhiteSpace_def)
  have "formatContentAsMessageBinaryFormat (js ''Hello\<newline>\<newline>World'')
      = map (\<lambda>p. [Num 0, Str (trim p)])
          (filter (\<lambda>p. trim p \<noteq> []) [js ''Hello'', js ''World''])"
    using formatContent_paragraphs[of "js ''Hello\<newline>\<newline>World''"] by (simp only: s)
  also have "\<dots> = [[Num 0, Str (js ''Hello'')], [Num 0, Str (js ''World'')]]"
    by (simp add: trim_def js_def isWhiteSpace_def)
  finally show ?thesis
    using t by blast
qed

section \<open>Properties of the decoder and of the reading loop\<close>

lemma utf8_run_append:
  "utf8_run d (a @ b) =
     (let (d1, o1) = utf8_run d a; (d2, o2) = utf8_run d1 b in (d2, o1 @ o2))"
  by (induction a arbitrary: d) (auto simp: Let_def split: prod.splits)

lemma serialize_append:
  "serialize seen (x @ y) =
     (let (s1, o1) = serialize seen x; (s2, o2) = serialize s1 y in (s2, o1 @ o2))"
proof (induction seen x rule: serialize.induct)
  case (1 seen)
  then show ?case by (simp split: prod.splits)
next
  case (2 seen item items)
  then show ?case by (auto simp: Let_def split: prod.splits)
qed

lemma decode_append:
  "decode td (a @ b) =
     (let (td1, t1) = decode td a; (td2, t2) = decode td1 b in (td2, t1 @ t2))"
  by (simp add: decode_def utf8_run_append serialize_append Let_def split: prod.splits)

lemma newline_js: "js ''\<newline>'' = [0x0A]"
  by (simp add: js_def)

lemma splitFrom_single:
  "splitFrom [n] cur (c # cs) =
     (if c = n then cur # splitFrom [n] [] cs else splitFrom [n] (cur @ [c]) cs)"
  by simp

lemma splitFrom_nonempty: "splitFrom sep cur s \<noteq> []"
  by (induction sep cur s rule: splitFrom.induct) auto

lemma splitFrom_single_append:
  "splitFrom [n] cur (a @ b) =
     butlast (splitFrom [n] cur a) @ splitFrom [n] (last (splitFrom [n] cur a)) b"
proof (induction a arbitrary: cur)
  case Nil
  then show ?case by simp
next
  case (Cons c a)
  show ?case
  proof (cases "c = n")
    case True
    have "splitFrom [n] cur ((c # a) @ b) = cur # splitFrom [n] [] (a @ b)"
      using True by simp
    also have "\<dots> = cur # butlast (splitFrom [n] [] a) @ splitFrom [n] (last (splitFrom [n] [] a)) b"
      by (simp only: Cons.IH[of "[]"] append_Cons)
    finally show ?thesis
      using True splitFrom_nonempty[of "[n]" "[]" a] by simp
  next
    case False
    then show ?thesis
      using Cons.IH[of "cur @ [c]"] by simp
  qed
qed

lemma splitFrom_single_cur:
  "n \<notin> set cur \<Longrightarrow> splitFrom [n] [] (cur @ s) = splitFrom [n] cur s"
proof (induction cur arbitrary: s rule: rev_induct)
  case Nil
  then show ?case by simp
next
  case (snoc x xs)
  then have "splitFrom [n] [] (xs @ x # s) = splitFrom [n] xs (x # s)"
    by simp
  with snoc.prems show ?case by simp
qed

lemma splitFrom_single_last:
  "n \<notin> set cur \<Longrightarrow> n \<notin> set (last (splitFrom [n] cur s))"
proof (induction s arbitrary: cur)
  case Nil
  then show ?case by simp
next
  case (Cons c s)
  show ?case
  proof (cases "c = n")
    case True
    have "last (splitFrom [n] cur (c # s)) = last (splitFrom [n] [] s)"
      using True splitFrom_nonempty[of "[n]" "[]" s]
      by (simp add: splitFrom_single del: splitFrom.simps)
    with Cons.IH[of "[]"] show ?thesis
      by simp
  next
    case False
    with Cons.prems have "n \<notin> set (cur @ [c])" by auto
    from Cons.IH[OF this] False show ?thesis
      by (simp add: splitFrom_single del: splitFrom.simps)
  qed
qed

lemma readChunk_fields:
  "textDecoder (readChunk h r val) = fst (decode (textDecoder r) val)"
  "buffer (readChunk h r val)
     = last (splitFrom [0x0A] [] (buffer r @ snd (decode (textDecoder r) val)))"
  "vars (readChunk h r val)
     = foldl h (vars r) (butlast (splitFrom [0x0A] [] (buffer r @ snd (decode (textDecoder r) val))))"
  by (simp_all add: readChunk_def pop_def orElse_def truthy_def split_def newline_js js_def
      splitFrom_nonempty split: prod.splits)

lemma readLoop_whole:
  assumes "0x0A \<notin> set (buffer r)"
  shows "vars (readLoop h r chunks)
           = foldl h (vars r)
               (butlast (splitFrom [0x0A] [] (buffer r @ snd (decode (textDecoder r) (concat chunks)))))
         \<and> buffer (readLoop h r chunks)
           = last (splitFrom [0x0A] [] (buffer r @ snd (decode (textDecoder r) (concat chunks))))"
  using assms
proof (induction chunks arbitrary: r)
  case Nil
  have "decode (textDecoder r) [] = (textDecoder r, [])"
    by (simp add: decode_def)
  with Nil show ?case
    by (simp add: splitFrom_single_cur[of _ _ "[]", simplified])
next
  case (Cons val rest)
  let ?t1 = "snd (decode (textDecoder r) val)"
  let ?td1 = "fst (decode (textDecoder r) val)"
  let ?t2 = "snd (decode ?td1 (concat rest))"
  let ?L = "splitFrom [0x0A] [] (buffer r @ ?t1)"
  let ?r1 = "readChunk h r val"
  have free: "0x0A \<notin> set (buffer ?r1)"
    by (simp add: readChunk_fields splitFrom_single_last)
  have dec: "snd (decode (textDecoder r) (val @ concat rest)) = ?t1 @ ?t2"
    by (simp add: decode_append split: prod.splits)
  have "splitFrom [0x0A] [] ((buffer r @ ?t1) @ ?t2)
          = butlast ?L @ splitFrom [0x0A] (last ?L) ?t2"
    by (rule splitFrom_single_append)
  also have "splitFrom [0x0A] (last ?L) ?t2 = splitFrom [0x0A] [] (last ?L @ ?t2)"
    by (rule splitFrom_single_cur[symmetric]) (simp add: splitFrom_single_last)
  finally have whole: "splitFrom [0x0A] [] (buffer r @ ?t1 @ ?t2)
      = butlast ?L @ splitFrom [0x0A] [] (last ?L @ ?t2)"
    by simp
  have ne: "splitFrom [0x0A] [] (last ?L @ ?t2) \<noteq> []"
    by (rule splitFrom_nonempty)
  have bl: "butlast (splitFrom [0x0A] [] (buffer r @ ?t1 @ ?t2))
      = butlast ?L @ butlast (splitFrom [0x0A] [] (last ?L @ ?t2))"
    using ne by (simp only: whole butlast_append if_False)
  have la: "last (splitFrom [0x0A] [] (buffer r @ ?t1 @ ?t2))
      = last (splitFrom [0x0A] [] (last ?L @ ?t2))"
    using ne by (simp only: whole last_append if_False)
  from Cons.IH[OF free] show ?case
    by (simp add: readChunk_fields dec bl la)
qed

lemma newReader_fields:
  "buffer (newReader s) = []" "vars (newReader s) = s" "textDecoder (newReader s) = new_TextDecoder"
  by (simp_all add: newReader_def js_def)

text \<open>
  C4. Two ways of cutting the same bytes into chunks, also in the middle of a line or
  of a multi-byte character, give the inner loop the same lines in the same order, and
  so leave any adapter with the same variables and the same buffered fragment.
\<close>

theorem chunking_irrelevant:
  assumes "concat chunks1 = concat chunks2"
  shows "linesRead chunks1 = linesRead chunks2
       \<and> vars (readLoop h (newReader s) chunks1) = vars (readLoop h (newReader s) chunks2)
       \<and> buffer (readLoop h (newReader s) chunks1) = buffer (readLoop h (newReader s) chunks2)"
  using assms
  by (simp add: linesRead_def readLoop_whole newReader_fields)

theorem chunking_irrelevant_witness:
  "concat [[0x61, 0x0A, 0xC3], [0xA9, 0x0A, 0x62]] = concat [[0x61 :: 8 word, 0x0A, 0xC3, 0xA9, 0x0A, 0x62]]
   \<and> linesRead [[0x61, 0x0A, 0xC3], [0xA9, 0x0A, 0x62]] = [[0x61], [0xE9]]"
proof -
  have c: "concat [[0x61, 0x0A, 0xC3], [0xA9, 0x0A, 0x62]]
             = concat [[0x61 :: 8 word, 0x0A, 0xC3, 0xA9, 0x0A, 0x62]]"
    by simp
  have whole: "linesRead [[0x61, 0x0A, 0xC3, 0xA9, 0x0A, 0x62]] = [[0x61], [0xE9]]"
    by (simp add: linesRead_def newReader_def readChunk_def decode_def new_TextDecoder_def
        utf8_fresh_def utf8_handler_def utf8_lead_def code_units_def pop_def orElse_def
        truthy_def split_def js_def)
  have "linesRead [[0x61, 0x0A, 0xC3], [0xA9, 0x0A, 0x62]]
          = linesRead [[0x61, 0x0A, 0xC3, 0xA9, 0x0A, 0x62]]"
    by (rule chunking_irrelevant[OF c, THEN conjunct1])
  with whole c show ?thesis
    by (simp only: simp_thms)
qed

section \<open>The lifecycle of the streams\<close>








































section \<open>Streaming and synchronous documents\<close>
















section \<open>Malformed lines\<close>










section \<open>Credentials\<close>

lemma cloudConfig_apiKey: "apiKey (cloudConfig config) = apiKey config"
  by (simp add: cloudConfig_def)

lemma catalog_keys: "mandatesKey V0" "mandatesKey OllamaCloud" "mandatesKey Llama"
  by (simp_all add: mandatesKey_def getAllProviders_def)

lemma cloud_rejects:
  assumes "\<not> isSet (apiKey config)"
  shows "ollamaCloud_createChat e fetch p request config = (Threw ollamaCloud_keyError, [])"
    and "ollamaCloud_continueChat e fetch p request config = (Threw ollamaCloud_keyError, [])"
  using assms
  by (simp_all add: ollamaCloud_createChat_def ollamaCloud_continueChat_def cloudConfig_apiKey)




section \<open>Synchronous responses\<close>







lemma same_turn: "map (\<lambda>msg. \<lparr>role = role msg, content = content msg\<rparr>) ms = ms"
  by (induction ms) simp_all













section \<open>The messages sent by continueChat\<close>

lemma ollama_sent:
  "snd (ollama_syncChat e fetch b m turns config) = [ollama_chatRequest b m turns config False]"
  "snd (ollama_streamChat e fetch' p b m turns config) = [ollama_chatRequest b m turns config True]"
  by (simp_all add: ollama_syncChat_def ollama_streamChat_def Let_def)

lemma llama_sent:
  "snd (llama_syncChat e fetch b m k turns config) = [llama_chatRequest b m k turns config False]"
  "snd (llama_streamChat fetch' p b m k turns config) = [llama_chatRequest b m k turns config True]"
  by (simp_all add: llama_syncChat_def llama_streamChat_def Let_def)

lemma lmstudio_sent:
  "snd (lmstudio_syncChat e fetch b m turns config) = [lmstudio_chatRequest b m turns config False]"
  "snd (lmstudio_streamChat fetch' p b m turns config) = [lmstudio_chatRequest b m turns config True]"
  by (simp_all add: lmstudio_syncChat_def lmstudio_streamChat_def Let_def)

lemma request_turns:
  "requestMessages (ollama_chatRequest b m turns config s) = Some turns"
  "requestMessages (llama_chatRequest b m k turns config s) = Some turns"
  "requestMessages (lmstudio_chatRequest b m turns config s) = Some turns"
  by (simp_all add: requestMessages_def ollama_chatRequest_def llama_chatRequest_def
      lmstudio_chatRequest_def)

lemma ollama_continueChat_sent:
  "map requestMessages (snd (ollama_continueChat e fetch p request config))
     = [Some (turnsOf request)]"
proof (cases "streaming request = Some True")
  case True
  then have "snd (ollama_continueChat e fetch p request config)
      = snd (ollama_streamChat e fetch p (orElse (baseUrl config) (js ''http://localhost:11434''))
               (orElse (modelName config) (js ''llama3.2'')) (turnsOf request) config)"
    by (simp add: ollama_continueChat_def Let_def turnsOf_def same_turn split: prod.splits)
  then show ?thesis
    by (simp add: ollama_sent request_turns)
next
  case False
  then have "snd (ollama_continueChat e fetch p request config)
      = snd (ollama_syncChat e fetch (orElse (baseUrl config) (js ''http://localhost:11434''))
               (orElse (modelName config) (js ''llama3.2'')) (turnsOf request) config)"
    by (simp add: ollama_continueChat_def Let_def turnsOf_def same_turn
        split: prod.splits sum.splits)
  then show ?thesis
    by (simp add: ollama_sent request_turns)
qed

lemma lmstudio_continueChat_sent:
  "map requestMessages (snd (lmstudio_continueChat e fetch p request config))
     = [Some (turnsOf request)]"
proof (cases "streaming request = Some True")
  case True
  then have "snd (lmstudio_continueChat e fetch p request config)
      = snd (lmstudio_streamChat fetch p (orElse (baseUrl config) (js ''http://localhost:1234''))
               (orElse (modelName config) (js ''local-model'')) (turnsOf request) config)"
    by (simp add: lmstudio_continueChat_def Let_def turnsOf_def same_turn split: prod.splits)
  then show ?thesis
    by (simp add: lmstudio_sent request_turns)
next
  case False
  then have "snd (lmstudio_continueChat e fetch p request config)
      = snd (lmstudio_syncChat e fetch (orElse (baseUrl config) (js ''http://localhost:1234''))
               (orElse (modelName config) (js ''local-model'')) (turnsOf request) config)"
    by (simp add: lmstudio_continueChat_def Let_def turnsOf_def same_turn
        split: prod.splits sum.splits)
  then show ?thesis
    by (simp add: lmstudio_sent request_turns)
qed

lemma llama_continueChat_sent:
  assumes "isSet (apiKey config)"
  shows "map requestMessages (snd (llama_continueChat e fetch p request config))
     = [Some (turnsOf request)]"
proof (cases "streaming request = Some True")
  case True
  with assms have "snd (llama_continueChat e fetch p request config)
      = snd (llama_streamChat fetch p
               (orElse (baseUrl config) (js ''https://api.llama-api.com/v1/chat/completions''))
               (orElse (modelName config) (js ''llama3.2-1b'')) (orElse (apiKey config) (js ''''))
               (turnsOf request) config)"
    by (simp add: llama_continueChat_def Let_def turnsOf_def same_turn split: prod.splits)
  then show ?thesis
    by (simp add: llama_sent request_turns)
next
  case False
  with assms have "snd (llama_continueChat e fetch p request config)
      = snd (llama_syncChat e fetch
               (orElse (baseUrl config) (js ''https://api.llama-api.com/v1/chat/completions''))
               (orElse (modelName config) (js ''llama3.2-1b'')) (orElse (apiKey config) (js ''''))
               (turnsOf request) config)"
    by (simp add: llama_continueChat_def Let_def turnsOf_def same_turn
        split: prod.splits sum.splits)
  then show ?thesis
    by (simp add: llama_sent request_turns)
qed

text \<open>
  C8, amended. Every continueChat call of the Ollama, LM Studio, Llama and Ollama Cloud
  adapters that reaches the upstream sends exactly one request, and the message list in
  its body is the prior turns of the request, in their order, followed by the new
  message as a user turn. The Ollama and LM Studio adapters always reach the upstream;
  the Llama and Ollama Cloud adapters do when the API key is set. The v0 adapter sends
  no message list: it hands the chat identifier and the new message to the SDK.
\<close>

theorem continueChat_message_list:
  "turnsOf request
     = (case messages request of None \<Rightarrow> [] | Some ms \<Rightarrow> ms)
       @ [\<lparr>role = User, content = message request\<rparr>]
   \<and> map requestMessages (snd (ollama_continueChat e fetch p request config))
       = [Some (turnsOf request)]
   \<and> map requestMessages (snd (lmstudio_continueChat e fetchL pL request config))
       = [Some (turnsOf request)]
   \<and> (isSet (apiKey config) \<longrightarrow>
        map requestMessages (snd (llama_continueChat e fetchL pL request config))
          = [Some (turnsOf request)]
        \<and> map requestMessages (snd (ollamaCloud_continueChat e fetch p request config))
          = [Some (turnsOf request)])
   \<and> (isSet (chatId request) \<longrightarrow>
        snd (v0_continueChat sdk request config)
          = [ChatsSendMessage (clientConfig config) (orElse (chatId request) (js [])) (message request)
               (if streaming request = Some True then Some experimental_stream else None)
               (sentAttachments request)])"
proof -
  have "map requestMessages (snd (ollamaCloud_continueChat e fetch p request config))
          = [Some (turnsOf request)]" if "isSet (apiKey config)"
    using that ollama_continueChat_sent[of e fetch p request "cloudConfig config"]
    by (simp add: ollamaCloud_continueChat_def cloudConfig_def)
  moreover have "snd (v0_continueChat sdk request config)
          = [ChatsSendMessage (clientConfig config) (orElse (chatId request) (js [])) (message request)
               (if streaming request = Some True then Some experimental_stream else None)
               (sentAttachments request)]" if "isSet (chatId request)"
    using that by (simp add: v0_continueChat_def Let_def)
  ultimately show ?thesis
    using ollama_continueChat_sent[of e fetch p request config]
      lmstudio_continueChat_sent[of e fetchL pL request config]
      llama_continueChat_sent[of config e fetchL pL request]
    by (simp add: turnsOf_def)
qed

theorem continueChat_message_list_witness:
  "isSet (apiKey keyedConfig) \<and> isSet (chatId scenarioE)
   \<and> map requestMessages
        (snd (llama_continueChat sampleEnv (jsonBody hiCompletion) sampleChunks scenarioE
               keyedConfig))
      = [Some [\<lparr>role = User, content = js ''A''\<rparr>, \<lparr>role = Assistant, content = js ''B''\<rparr>,
               \<lparr>role = User, content = js ''C''\<rparr>]]
   \<and> map requestMessages
        (snd (ollama_continueChat sampleEnv (jsonBody helloAnswer) sampleLines scenarioE
               keyedConfig))
      = [Some [\<lparr>role = User, content = js ''A''\<rparr>, \<lparr>role = Assistant, content = js ''B''\<rparr>,
               \<lparr>role = User, content = js ''C''\<rparr>]]"
proof -
  have k: "isSet (apiKey keyedConfig)" "isSet (chatId scenarioE)"
    by (simp_all add: keyedConfig_def scenarioE_def isSet_def truthy_def js_def)
  have t: "turnsOf scenarioE
      = [\<lparr>role = User, content = js ''A''\<rparr>, \<lparr>role = Assistant, content = js ''B''\<rparr>,
         \<lparr>role = User, content = js ''C''\<rparr>]"
    by (simp add: turnsOf_def scenarioE_def)
  note inst = continueChat_message_list[where config = keyedConfig and e = sampleEnv
      and fetch = "jsonBody helloAnswer" and p = sampleLines
      and fetchL = "jsonBody hiCompletion" and pL = sampleChunks
      and sdk = "\<lambda>call. SdkChatDetail sampleDetail" and request = scenarioE]
  from inst have o: "map requestMessages
        (snd (ollama_continueChat sampleEnv (jsonBody helloAnswer) sampleLines scenarioE
               keyedConfig)) = [Some (turnsOf scenarioE)]"
    by blast
  from inst k(1) have l: "map requestMessages
        (snd (llama_continueChat sampleEnv (jsonBody hiCompletion) sampleChunks scenarioE
               keyedConfig)) = [Some (turnsOf scenarioE)]"
    by blast
  from k o l show ?thesis
    by (simp only: t simp_thms)
qed

theorem v0_continueChat_no_message_list:
  "messages scenarioE
     = Some [\<lparr>role = User, content = js ''A''\<rparr>, \<lparr>role = Assistant, content = js ''B''\<rparr>]
   \<and> v0_continueChat (\<lambda>call. SdkChatDetail sampleDetail) scenarioE keyedConfig
     = (Returned sampleDetail,
        [ChatsSendMessage \<lparr>client_baseUrl = Some (js ''http://host''),
                            client_apiKey = Some (js ''key'')\<rparr>
           (js ''chat-1'') (js ''C'') None None])"
  by (simp add: v0_continueChat_def v0_result_def mapV0Response_def sampleDetail_def
      clientConfig_def keyedConfig_def sentAttachments_def isSet_def orElse_def truthy_def
      js_def Let_def scenarioE_def)

section \<open>Listing models\<close>

lemma ollama_listModels_returns:
  "(\<exists>ms. returned (ollama_listModels fetch config) = Inr ms)
   \<and> requested (ollama_listModels fetch config) = [ollama_tagsRequest config]"
  by (simp add: ollama_listModels_def split: sum.splits)

lemma ollama_listModels_fallback:
  assumes "fetch (ollama_tagsRequest config) = Rejected
         \<or> (\<exists>rs. fetch (ollama_tagsRequest config) = Resolved rs
                \<and> (\<not> ok rs \<or> json_result rs = None))"
  shows "returned (ollama_listModels fetch config)
           = Inr [js ''llama3.2'', js ''llama3.1'', js ''mistral'', js ''codellama'']"
  using assms
  by (auto simp: ollama_listModels_def ollama_fetchModels_def split: option.splits)

text \<open>
  C9. The claim holds for the v0, Llama, Ollama and Ollama Cloud adapters; the LM Studio
  adapter breaks it. Its \<^verbatim>\<open>listModels\<close> never looks at \<^verbatim>\<open>response.ok\<close>: when the
  models request is answered with an error status and a JSON body without a \<^verbatim>\<open>data\<close>
  field, it returns the empty list and logs nothing, where \<^verbatim>\<open>OllamaProvider.listModels\<close>
  on the same answer falls back to its hard-coded list.
\<close>

theorem lmstudio_listModels_error_status:
  "lmstudio_listModels (errorStatus (ModelsResponse None)) noConfig
     = \<lparr>returned = Inr [],
        requested = [\<lparr>url = js ''http://localhost:1234/v1/models'', http_method = GET,
                      headers = [], body = NoBody\<rparr>],
        reported = []\<rparr>
   \<and> returned (ollama_listModels (errorStatus (TagsResponse None)) noConfig)
       = Inr [js ''llama3.2'', js ''llama3.1'', js ''mistral'', js ''codellama'']"
proof -
  have "js ''http://localhost:1234'' @ js ''/v1/models'' = js ''http://localhost:1234/v1/models''"
    by (simp add: js_def)
  then have "lmstudio_listModels (errorStatus (ModelsResponse None)) noConfig
     = \<lparr>returned = Inr [],
        requested = [\<lparr>url = js ''http://localhost:1234/v1/models'', http_method = GET,
                      headers = [], body = NoBody\<rparr>],
        reported = []\<rparr>"
    by (simp add: lmstudio_listModels_def lmstudio_fetchModels_def lmstudio_modelsRequest_def
        errorStatus_def noConfig_def orElse_def)
  moreover have "returned (ollama_listModels (errorStatus (TagsResponse None)) noConfig)
       = Inr [js ''llama3.2'', js ''llama3.1'', js ''mistral'', js ''codellama'']"
    by (rule ollama_listModels_fallback) (simp add: errorStatus_def)
  ultimately show ?thesis
    by simp
qed

lemma cloud_tags_url:
  "url (ollama_tagsRequest (cloudConfig config))
     = orElse (baseUrl config) (js ''https://ollama.com'') @ js ''/api/tags''"
proof -
  have "truthy (orElse (baseUrl config) (js ''https://ollama.com''))"
    by (auto simp: orElse_def truthy_def js_def split: option.splits)
  then show ?thesis
    by (simp add: ollama_tagsRequest_def cloudConfig_def orElse_def)
qed

text \<open>
  C10. \<^verbatim>\<open>OllamaCloudProvider.listModels\<close> makes no credential check: for a configuration
  without an API key it sends one request for the tags, without an Authorization
  header, to the configured base address or else to \<^verbatim>\<open>https://ollama.com\<close>, and
  always returns a list of models, although the catalog marks the provider as requiring
  an API key and its createChat and continueChat reject the same configuration.
\<close>

theorem cloud_listModels_unchecked:
  assumes "\<not> isSet (apiKey config)"
  shows "(\<exists>ms. returned (ollamaCloud_listModels fetch config) = Inr ms)
     \<and> requested (ollamaCloud_listModels fetch config)
         = [\<lparr>url = orElse (baseUrl config) (js ''https://ollama.com'') @ js ''/api/tags'',
              http_method = GET, headers = [], body = NoBody\<rparr>]
     \<and> mandatesKey OllamaCloud
     \<and> ollamaCloud_createChat e fetchC p request config = (Threw ollamaCloud_keyError, [])
     \<and> ollamaCloud_continueChat e fetchC p request config = (Threw ollamaCloud_keyError, [])"
proof -
  have "ollama_tagsRequest (cloudConfig config)
      = \<lparr>url = orElse (baseUrl config) (js ''https://ollama.com'') @ js ''/api/tags'',
              http_method = GET, headers = [], body = NoBody\<rparr>"
    using assms cloud_tags_url[of config]
    by (simp add: ollama_tagsRequest_def bearer_def cloudConfig_apiKey)
  then show ?thesis
    using ollama_listModels_returns[of fetch "cloudConfig config"] cloud_rejects[OF assms]
      catalog_keys(2)
    by (simp add: ollamaCloud_listModels_def)
qed

theorem cloud_listModels_unchecked_witness:
  "\<not> isSet (apiKey noConfig)
   \<and> ollamaCloud_listModels (\<lambda>request. Rejected) noConfig
       = \<lparr>returned = Inr [js ''llama3.2'', js ''llama3.1'', js ''mistral'', js ''codellama''],
          requested = [\<lparr>url = js ''https://ollama.com/api/tags'', http_method = GET,
                        headers = [], body = NoBody\<rparr>],
          reported = [ModelsFailure FetchRejected]\<rparr>
   \<and> ollamaCloud_createChat sampleEnv (jsonBody helloAnswer) sampleLines (ask (js ''Hi'')) noConfig
       = (Threw ollamaCloud_keyError, [])"
proof -
  have k: "\<not> isSet (apiKey noConfig)"
    by (simp add: noConfig_def isSet_def)
  note inst = cloud_listModels_unchecked[OF k, where fetch = "\<lambda>request. Rejected" and e = sampleEnv
      and fetchC = "jsonBody helloAnswer" and p = sampleLines and request = "ask (js ''Hi'')"]
  have u: "orElse (baseUrl noConfig) (js ''https://ollama.com'') @ js ''/api/tags''
      = js ''https://ollama.com/api/tags''"
    by (simp add: noConfig_def orElse_def js_def)
  from inst have req: "requested (ollamaCloud_listModels (\<lambda>request. Rejected) noConfig)
      = [\<lparr>url = js ''https://ollama.com/api/tags'', http_method = GET, headers = [],
           body = NoBody\<rparr>]"
    by (simp only: u)
  have ret: "returned (ollamaCloud_listModels (\<lambda>request. Rejected) noConfig)
      = Inr [js ''llama3.2'', js ''llama3.1'', js ''mistral'', js ''codellama'']"
    "reported (ollamaCloud_listModels (\<lambda>request. Rejected) noConfig) = [ModelsFailure FetchRejected]"
    by (simp_all add: ollamaCloud_listModels_def ollama_listModels_def ollama_fetchModels_def)
  from inst have rej: "ollamaCloud_createChat sampleEnv (jsonBody helloAnswer) sampleLines
      (ask (js ''Hi'')) noConfig = (Threw ollamaCloud_keyError, [])"
    by blast
  have "ollamaCloud_listModels (\<lambda>request. Rejected) noConfig
       = \<lparr>returned = Inr [js ''llama3.2'', js ''llama3.1'', js ''mistral'', js ''codellama''],
          requested = [\<lparr>url = js ''https://ollama.com/api/tags'', http_method = GET,
                        headers = [], body = NoBody\<rparr>],
          reported = [ModelsFailure FetchRejected]\<rparr>"
    using req ret by (cases "ollamaCloud_listModels (\<lambda>request. Rejected) noConfig") simp
  with k rej show ?thesis
    by blast
qed

end
